theory Spec2Isabelle
  imports Complex_Main
begin

section \<open>Boundary-crossing overlays of hermpy (boundary\_crossings.py)\<close>

text \<open>
  The module has three functions: \<open>Load_Crossings\<close> reads a pickled table and keeps six of its
  columns, \<open>Plot_Crossing_Intervals\<close> and \<open>Plot_Crossings_As_Minutes_Before\<close> walk over the
  rows of such a table and add dashed vertical lines and a text label to a matplotlib axes
  for every row that lies in the plotted window.

  Numbers. A point in time is a rational number of seconds since an arbitrary epoch and a
  time difference a rational number of seconds; Python's floats are rationals as well.
  The arithmetic of the model is therefore exact: the rounding of floating-point division
  and of a time difference halved below the clock's resolution is not part of it.
\<close>

subsection \<open>Values and errors\<close>

type_synonym datetime = rat
type_synonym timedelta = rat

text \<open>The exceptions the three functions can raise.\<close>

datatype error =
    FileNotFoundError
  | PermissionError
  | UnpicklingError
  | TypeError
  | KeyError string
  | ValueError
  | ZeroDivisionError

text \<open>An exception ends the function that raises it: the rest runs on a value only.\<close>

definition and_then :: "error + 'a \<Rightarrow> ('a \<Rightarrow> error + 'b) \<Rightarrow> error + 'b" where
  "and_then r f = (case r of Inl e \<Rightarrow> Inl e | Inr v \<Rightarrow> f v)"

text \<open>\<open>timedelta.total_seconds()\<close>: the difference as a float number of seconds.\<close>

definition total_seconds :: "timedelta \<Rightarrow> rat" where
  "total_seconds td = td"

text \<open>Python's \<open>/\<close> on two floats raises \<open>ZeroDivisionError\<close> on a zero divisor.\<close>

definition truediv :: "rat \<Rightarrow> rat \<Rightarrow> error + rat" where
  "truediv a b = (if b = 0 then Inl ZeroDivisionError else Inr (a / b))"

text \<open>
  \<open>str.upper()\<close> and \<open>str.replace(old, new)\<close> for one-character \<open>old\<close> and \<open>new\<close>. A
  \<open>string\<close> is a list of bytes; \<open>upper\<close> maps the ASCII letters \<open>a\<close> to \<open>z\<close> and leaves every
  other byte as it is (boundary type names are ASCII tokens).
\<close>

definition upper_char :: "char \<Rightarrow> char" where
  "upper_char c =
     (let n = (of_char c :: nat) in if 97 \<le> n \<and> n \<le> 122 then char_of (n - 32) else c)"

definition upper :: "string \<Rightarrow> string" where
  "upper s = map upper_char s"

definition replace :: "char \<Rightarrow> char \<Rightarrow> string \<Rightarrow> string" where
  "replace old new s = map (\<lambda>c. if c = old then new else c) s"

subsection \<open>Load\_Crossings\<close>

text \<open>
  The pickled object is a table read by column name, \<open>crossings_data["start"]\<close>: a map from
  names to columns, a missing name raising \<open>KeyError\<close>. The cells of a column are of any
  type \<open>'a\<close>, since loading never looks into them.
\<close>

definition getitem :: "(string \<rightharpoonup> 'a list) \<Rightarrow> string \<Rightarrow> error + 'a list" where
  "getitem data key =
     (case data key of None \<Rightarrow> Inl (KeyError key) | Some column \<Rightarrow> Inr column)"

text \<open>
  \<open>pd.DataFrame({...})\<close> on a dict of columns: the frame has the columns of the dict in the
  order of the dict; columns of different lengths are a \<open>ValueError\<close>.
\<close>

definition pd_DataFrame :: "(string \<times> 'a list) list \<Rightarrow> error + (string \<times> 'a list) list" where
  "pd_DataFrame data =
     (case data of
        [] \<Rightarrow> Inr []
      | (_, first) # _ \<Rightarrow>
          if list_all (\<lambda>(_, column). length column = length first) data
          then Inr data else Inl ValueError)"

text \<open>
  \<open>Load_Crossings(path)\<close>. The file system and the pickle decoder are the two parameters
  \<open>open_rb\<close> (\<open>open(path, "rb")\<close>: the bytes of the file, or the \<open>OSError\<close> raised) and
  \<open>pickle_load\<close> (\<open>pickle.load\<close>: the table, or the exception raised; a pickle that holds
  no table counts as an exception here, in Python it is one at the first subscript). The
  entries of the dict are evaluated in the order they are written.
\<close>

definition Load_Crossings ::
  "(string \<Rightarrow> error + string) \<Rightarrow> (string \<Rightarrow> error + (string \<rightharpoonup> 'a list)) \<Rightarrow> string
     \<Rightarrow> error + (string \<times> 'a list) list" where
  "Load_Crossings open_rb pickle_load path =
     and_then (open_rb path) (\<lambda>crossings_file.
     and_then (pickle_load crossings_file) (\<lambda>crossings_data.
     and_then (getitem crossings_data ''start'') (\<lambda>v_start.
     and_then (getitem crossings_data ''end'') (\<lambda>v_end.
     and_then (getitem crossings_data ''start_x_msm'') (\<lambda>v_start_x_msm.
     and_then (getitem crossings_data ''start_y_msm'') (\<lambda>v_start_y_msm.
     and_then (getitem crossings_data ''start_z_msm'') (\<lambda>v_start_z_msm.
     and_then (getitem crossings_data ''Type'') (\<lambda>v_Type.
       pd_DataFrame
         [(''start'', v_start),
          (''end'', v_end),
          (''start_x_msm'', v_start_x_msm),
          (''start_y_msm'', v_start_y_msm),
          (''start_z_msm'', v_start_z_msm),
          (''type'', v_Type)]))))))))"

subsection \<open>The crossings table and the axes\<close>

text \<open>
  One row of the table that \<open>Load_Crossings\<close> produces, as \<open>crossings.iterrows()\<close> yields it:
  \<open>row["start"]\<close> and \<open>row["end"]\<close> are timestamps, the three coordinates are floats and
  \<open>row["type"]\<close> is a string.
\<close>

record crossing =
  row_start :: datetime
  row_end :: datetime
  row_start_x_msm :: rat
  row_start_y_msm :: rat
  row_start_z_msm :: rat
  row_type :: string

text \<open>
  What a matplotlib axes holds, as far as this module adds to it: the vertical lines of
  \<open>ax.axvline\<close>, at a date or at a number, and the texts of \<open>ax.text\<close>, in the order of the
  calls.
\<close>

datatype xdata = Date datetime | Number rat

datatype transform = transData | transAxes

datatype artist =
    is_Axvline: Axvline (line_x: xdata) (line_color: string) (line_ls: string)
  | is_Text: Text (text_x: rat) (text_y: rat) (text_s: string) (text_transform: transform)
      (text_color: string) (text_ha: string) (text_va: string)

text \<open>
  The two objects a plotting call holds references to: the caller's axes and the caller's
  crossings table. A call takes the state of both and returns the state of both.
\<close>

record world =
  axes :: "artist list"
  crossings :: "crossing list"

definition ax_text ::
  "rat \<Rightarrow> rat \<Rightarrow> string \<Rightarrow> transform \<Rightarrow> string \<Rightarrow> string \<Rightarrow> string \<Rightarrow> world \<Rightarrow> world" where
  "ax_text x y s tr color ha va w = w\<lparr>axes := axes w @ [Text x y s tr color ha va]\<rparr>"

definition ax_axvline :: "xdata \<Rightarrow> string \<Rightarrow> string \<Rightarrow> world \<Rightarrow> world" where
  "ax_axvline x color ls w = w\<lparr>axes := axes w @ [Axvline x color ls]\<rparr>"

subsection \<open>Plot\_Crossing\_Intervals\<close>

text \<open>
  The body of \<open>for _, row in crossings.iterrows()\<close>, over the rows still to come. The label
  height is the local constant \<open>0.9\<close>. An exception ends the loop.
\<close>

fun Plot_Crossing_Intervals_rows ::
  "datetime \<Rightarrow> datetime \<Rightarrow> bool \<Rightarrow> string \<Rightarrow> crossing list \<Rightarrow> world \<Rightarrow> error + world" where
  "Plot_Crossing_Intervals_rows start end' label color [] w = Inr w"
| "Plot_Crossing_Intervals_rows start end' label color (row # rows) w =
     (if (row_start row > start \<and> row_start row < end') \<or>
         (row_end row > start \<and> row_end row < end')
      then
        (let midpoint = row_start row + (row_end row - row_start row) / 2 in
         case (if label
               then (let height = 9 / 10 in
                     case truediv (total_seconds (midpoint - start))
                                  (total_seconds (end' - start)) of
                       Inl e \<Rightarrow> Inl e
                     | Inr x \<Rightarrow>
                         Inr (ax_text x height
                                (replace CHR ''_'' CHR '' '' (upper (row_type row)))
                                transAxes color ''center'' ''center'' w))
               else Inr w) of
           Inl e \<Rightarrow> Inl e
         | Inr w1 \<Rightarrow>
             Plot_Crossing_Intervals_rows start end' label color rows
               (ax_axvline (Date (row_end row)) color ''dashed''
                 (ax_axvline (Date (row_start row)) color ''dashed'' w1)))
      else Plot_Crossing_Intervals_rows start end' label color rows w)"

text \<open>
  \<open>Plot_Crossing_Intervals(ax, start, end, crossings, label=True, color="orange")\<close>; \<open>ax\<close> and
  \<open>crossings\<close> are the two objects of the world.
\<close>

definition Plot_Crossing_Intervals ::
  "world \<Rightarrow> datetime \<Rightarrow> datetime \<Rightarrow> bool \<Rightarrow> string \<Rightarrow> error + world" where
  "Plot_Crossing_Intervals w start end' label color =
     Plot_Crossing_Intervals_rows start end' label color (crossings w) w"

subsection \<open>Plot\_Crossings\_As\_Minutes\_Before\<close>

fun Plot_Crossings_As_Minutes_Before_rows ::
  "datetime \<Rightarrow> datetime \<Rightarrow> datetime \<Rightarrow> bool \<Rightarrow> rat \<Rightarrow> string \<Rightarrow> crossing list \<Rightarrow> world
     \<Rightarrow> error + world" where
  "Plot_Crossings_As_Minutes_Before_rows data_start data_end apoapsis_time label height color
     [] w = Inr w"
| "Plot_Crossings_As_Minutes_Before_rows data_start data_end apoapsis_time label height color
     (row # rows) w =
     (if (row_start row > data_start \<and> row_start row < data_end) \<or>
         (row_end row > data_start \<and> row_end row < data_end)
      then
        (let midpoint = row_start row + (row_end row - row_start row) / 2;
             start_minutes = total_seconds (apoapsis_time - row_start row) / 60;
             end_minutes = total_seconds (apoapsis_time - row_end row) / 60 in
         case (if label
               then (case truediv (total_seconds (midpoint - data_start))
                                  (total_seconds (data_end - data_start)) of
                       Inl e \<Rightarrow> Inl e
                     | Inr x \<Rightarrow>
                         Inr (ax_text x height
                                (replace CHR ''_'' CHR '' '' (upper (row_type row)))
                                transAxes color ''center'' ''center'' w))
               else Inr w) of
           Inl e \<Rightarrow> Inl e
         | Inr w1 \<Rightarrow>
             Plot_Crossings_As_Minutes_Before_rows data_start data_end apoapsis_time label
               height color rows
               (ax_axvline (Number end_minutes) color ''dashed''
                 (ax_axvline (Number start_minutes) color ''dashed'' w1)))
      else Plot_Crossings_As_Minutes_Before_rows data_start data_end apoapsis_time label
             height color rows w)"

text \<open>
  \<open>Plot_Crossings_As_Minutes_Before(ax, crossings, data_start, data_end, apoapsis_time,
  label=True, height=0.9, color="orange")\<close>.
\<close>

definition Plot_Crossings_As_Minutes_Before ::
  "world \<Rightarrow> datetime \<Rightarrow> datetime \<Rightarrow> datetime \<Rightarrow> bool \<Rightarrow> rat \<Rightarrow> string \<Rightarrow> error + world" where
  "Plot_Crossings_As_Minutes_Before w data_start data_end apoapsis_time label height color =
     Plot_Crossings_As_Minutes_Before_rows data_start data_end apoapsis_time label height color
       (crossings w) w"

section \<open>What the two loops add to the axes\<close>

text \<open>
  Both loops return normally for every table and every window, and what they append to the
  axes is a function of the rows that pass the test of the \<open>if\<close>. A row that passes it
  lies strictly between the two ends of the window with one of its own ends, so the window
  is not empty and the division of the label position has a non-zero divisor.
\<close>

lemma Plot_Crossing_Intervals_rows_label:
  "Plot_Crossing_Intervals_rows A B True color rows w =
     Inr (w\<lparr>axes := axes w @ concat (map (\<lambda>row.
            [Text ((row_start row + (row_end row - row_start row) / 2 - A) / (B - A)) (9 / 10)
               (replace CHR ''_'' CHR '' '' (upper (row_type row)))
               transAxes color ''center'' ''center'',
             Axvline (Date (row_start row)) color ''dashed'',
             Axvline (Date (row_end row)) color ''dashed''])
          (filter (\<lambda>row. (A < row_start row \<and> row_start row < B) \<or>
                         (A < row_end row \<and> row_end row < B)) rows))\<rparr>)"
  by (induction rows arbitrary: w)
     (auto simp: truediv_def total_seconds_def ax_text_def ax_axvline_def Let_def)

lemma Plot_Crossing_Intervals_rows_nolabel:
  "Plot_Crossing_Intervals_rows A B False color rows w =
     Inr (w\<lparr>axes := axes w @ concat (map (\<lambda>row.
            [Axvline (Date (row_start row)) color ''dashed'',
             Axvline (Date (row_end row)) color ''dashed''])
          (filter (\<lambda>row. (A < row_start row \<and> row_start row < B) \<or>
                         (A < row_end row \<and> row_end row < B)) rows))\<rparr>)"
  by (induction rows arbitrary: w) (simp_all add: ax_axvline_def)

lemma Plot_Crossings_As_Minutes_Before_rows_label:
  "Plot_Crossings_As_Minutes_Before_rows A B T True height color rows w =
     Inr (w\<lparr>axes := axes w @ concat (map (\<lambda>row.
            [Text ((row_start row + (row_end row - row_start row) / 2 - A) / (B - A)) height
               (replace CHR ''_'' CHR '' '' (upper (row_type row)))
               transAxes color ''center'' ''center'',
             Axvline (Number ((T - row_start row) / 60)) color ''dashed'',
             Axvline (Number ((T - row_end row) / 60)) color ''dashed''])
          (filter (\<lambda>row. (A < row_start row \<and> row_start row < B) \<or>
                         (A < row_end row \<and> row_end row < B)) rows))\<rparr>)"
  by (induction rows arbitrary: w)
     (auto simp: truediv_def total_seconds_def ax_text_def ax_axvline_def Let_def)

lemma Plot_Crossings_As_Minutes_Before_rows_nolabel:
  "Plot_Crossings_As_Minutes_Before_rows A B T False height color rows w =
     Inr (w\<lparr>axes := axes w @ concat (map (\<lambda>row.
            [Axvline (Number ((T - row_start row) / 60)) color ''dashed'',
             Axvline (Number ((T - row_end row) / 60)) color ''dashed''])
          (filter (\<lambda>row. (A < row_start row \<and> row_start row < B) \<or>
                         (A < row_end row \<and> row_end row < B)) rows))\<rparr>)"
  by (induction rows arbitrary: w) (simp_all add: ax_axvline_def total_seconds_def)

lemma Plot_Crossing_Intervals_added:
  "Plot_Crossing_Intervals w A B label color =
     Inr (w\<lparr>axes := axes w @ concat (map (\<lambda>row.
            (if label
             then [Text ((row_start row + (row_end row - row_start row) / 2 - A) / (B - A))
                     (9 / 10) (replace CHR ''_'' CHR '' '' (upper (row_type row)))
                     transAxes color ''center'' ''center'']
             else []) @
            [Axvline (Date (row_start row)) color ''dashed'',
             Axvline (Date (row_end row)) color ''dashed''])
          (filter (\<lambda>row. (A < row_start row \<and> row_start row < B) \<or>
                         (A < row_end row \<and> row_end row < B)) (crossings w)))\<rparr>)"
  by (cases label)
     (simp_all add: Plot_Crossing_Intervals_def Plot_Crossing_Intervals_rows_label
        Plot_Crossing_Intervals_rows_nolabel)

lemma Plot_Crossings_As_Minutes_Before_added:
  "Plot_Crossings_As_Minutes_Before w A B T label height color =
     Inr (w\<lparr>axes := axes w @ concat (map (\<lambda>row.
            (if label
             then [Text ((row_start row + (row_end row - row_start row) / 2 - A) / (B - A))
                     height (replace CHR ''_'' CHR '' '' (upper (row_type row)))
                     transAxes color ''center'' ''center'']
             else []) @
            [Axvline (Number ((T - row_start row) / 60)) color ''dashed'',
             Axvline (Number ((T - row_end row) / 60)) color ''dashed''])
          (filter (\<lambda>row. (A < row_start row \<and> row_start row < B) \<or>
                         (A < row_end row \<and> row_end row < B)) (crossings w)))\<rparr>)"
  by (cases label)
     (simp_all add: Plot_Crossings_As_Minutes_Before_def
        Plot_Crossings_As_Minutes_Before_rows_label
        Plot_Crossings_As_Minutes_Before_rows_nolabel)

lemma sum_list_Suc_0: "(\<Sum>x\<leftarrow>xs. Suc 0) = length xs"
  by (induction xs) simp_all

section \<open>The selection of the rows that are drawn\<close>

text \<open>
  C1. For every table and every window \<open>(A, B)\<close>, both plotting functions return normally
  and the vertical lines they add are, in the order of the table, the two lines of each row
  whose start lies strictly between \<open>A\<close> and \<open>B\<close> or whose end lies strictly between \<open>A\<close> and
  \<open>B\<close>, and of no other row; with \<open>label\<close> true they add one text for each of these rows,
  and none otherwise. In particular a table whose only row starts exactly at \<open>A\<close>
  and does not end strictly inside the window leaves the axes as they were.
\<close>

theorem selection_rule:
  "(\<exists>w'. Plot_Crossing_Intervals w A B label color = Inr w' \<and>
      filter is_Axvline (axes w') =
        filter is_Axvline (axes w) @
        concat (map (\<lambda>r. [Axvline (Date (row_start r)) color ''dashed'',
                          Axvline (Date (row_end r)) color ''dashed''])
          (filter (\<lambda>r. (A < row_start r \<and> row_start r < B) \<or>
                       (A < row_end r \<and> row_end r < B)) (crossings w))) \<and>
      length (filter is_Text (axes w')) =
        length (filter is_Text (axes w)) +
        (if label
         then length (filter (\<lambda>r. (A < row_start r \<and> row_start r < B) \<or>
                                   (A < row_end r \<and> row_end r < B)) (crossings w))
         else 0)) \<and>
   (\<exists>w'. Plot_Crossings_As_Minutes_Before w A B T label height color = Inr w' \<and>
      filter is_Axvline (axes w') =
        filter is_Axvline (axes w) @
        concat (map (\<lambda>r. [Axvline (Number ((T - row_start r) / 60)) color ''dashed'',
                          Axvline (Number ((T - row_end r) / 60)) color ''dashed''])
          (filter (\<lambda>r. (A < row_start r \<and> row_start r < B) \<or>
                       (A < row_end r \<and> row_end r < B)) (crossings w))) \<and>
      length (filter is_Text (axes w')) =
        length (filter is_Text (axes w)) +
        (if label
         then length (filter (\<lambda>r. (A < row_start r \<and> row_start r < B) \<or>
                                   (A < row_end r \<and> row_end r < B)) (crossings w))
         else 0)) \<and>
   (row_start r = A \<and> \<not> (A < row_end r \<and> row_end r < B) \<longrightarrow>
      Plot_Crossing_Intervals (w\<lparr>crossings := [r]\<rparr>) A B label color =
        Inr (w\<lparr>crossings := [r]\<rparr>) \<and>
      Plot_Crossings_As_Minutes_Before (w\<lparr>crossings := [r]\<rparr>) A B T label height color =
        Inr (w\<lparr>crossings := [r]\<rparr>))"
  by (simp add: Plot_Crossing_Intervals_added Plot_Crossings_As_Minutes_Before_added
        filter_concat comp_def length_concat sum_list_Suc_0)

theorem selection_rule_witness:
  "(row_start \<lparr>row_start = 100, row_end = 250, row_start_x_msm = 1, row_start_y_msm = 2,
       row_start_z_msm = 3, row_type = ''bow_shock''\<rparr> = (100::rat) \<and>
    \<not> ((100::rat) < 250 \<and> (250::rat) < 200)) \<and>
   Plot_Crossing_Intervals
     \<lparr>axes = [], crossings = [\<lparr>row_start = 100, row_end = 250, row_start_x_msm = 1,
        row_start_y_msm = 2, row_start_z_msm = 3, row_type = ''bow_shock''\<rparr>]\<rparr>
     100 200 True ''orange'' =
     Inr \<lparr>axes = [], crossings = [\<lparr>row_start = 100, row_end = 250, row_start_x_msm = 1,
        row_start_y_msm = 2, row_start_z_msm = 3, row_type = ''bow_shock''\<rparr>]\<rparr> \<and>
   Plot_Crossings_As_Minutes_Before
     \<lparr>axes = [], crossings = [\<lparr>row_start = 100, row_end = 250, row_start_x_msm = 1,
        row_start_y_msm = 2, row_start_z_msm = 3, row_type = ''bow_shock''\<rparr>]\<rparr>
     100 200 150 True (9 / 10) ''orange'' =
     Inr \<lparr>axes = [], crossings = [\<lparr>row_start = 100, row_end = 250, row_start_x_msm = 1,
        row_start_y_msm = 2, row_start_z_msm = 3, row_type = ''bow_shock''\<rparr>]\<rparr>"
  using selection_rule [of "\<lparr>axes = [], crossings = []\<rparr>" 100 200 True "''orange''" 150 "9 / 10"
    "\<lparr>row_start = 100, row_end = 250, row_start_x_msm = 1, row_start_y_msm = 2,
       row_start_z_msm = 3, row_type = ''bow_shock''\<rparr>"]
  by simp

text \<open>
  C4. A row that starts before the window and ends after it (\<open>start < A\<close> and \<open>end > B\<close>)
  is not drawn by either function: the axes after the call are the same with the row in the
  table, at any place, as without it, and a table of that row alone leaves the axes as they
  were.
\<close>

theorem spanning_interval_not_drawn:
  assumes "row_start r < A" and "B < row_end r"
  shows "map_sum id axes
           (Plot_Crossing_Intervals (w\<lparr>crossings := earlier @ r # later\<rparr>) A B label color) =
         map_sum id axes
           (Plot_Crossing_Intervals (w\<lparr>crossings := earlier @ later\<rparr>) A B label color) \<and>
         map_sum id axes
           (Plot_Crossings_As_Minutes_Before (w\<lparr>crossings := earlier @ r # later\<rparr>)
              A B T label height color) =
         map_sum id axes
           (Plot_Crossings_As_Minutes_Before (w\<lparr>crossings := earlier @ later\<rparr>)
              A B T label height color) \<and>
         Plot_Crossing_Intervals (w\<lparr>crossings := [r]\<rparr>) A B label color =
           Inr (w\<lparr>crossings := [r]\<rparr>) \<and>
         Plot_Crossings_As_Minutes_Before (w\<lparr>crossings := [r]\<rparr>) A B T label height color =
           Inr (w\<lparr>crossings := [r]\<rparr>)"
  using assms
  by (simp add: Plot_Crossing_Intervals_added Plot_Crossings_As_Minutes_Before_added)

theorem spanning_interval_not_drawn_witness:
  "(row_start \<lparr>row_start = 50, row_end = 250, row_start_x_msm = 1, row_start_y_msm = 2,
       row_start_z_msm = 3, row_type = ''bow_shock''\<rparr> < (100::rat) \<and>
    (200::rat) < row_end \<lparr>row_start = 50, row_end = 250, row_start_x_msm = 1,
       row_start_y_msm = 2, row_start_z_msm = 3, row_type = ''bow_shock''\<rparr>) \<and>
   Plot_Crossing_Intervals
     \<lparr>axes = [], crossings = [\<lparr>row_start = 50, row_end = 250, row_start_x_msm = 1,
        row_start_y_msm = 2, row_start_z_msm = 3, row_type = ''bow_shock''\<rparr>]\<rparr>
     100 200 True ''orange'' =
     Inr \<lparr>axes = [], crossings = [\<lparr>row_start = 50, row_end = 250, row_start_x_msm = 1,
        row_start_y_msm = 2, row_start_z_msm = 3, row_type = ''bow_shock''\<rparr>]\<rparr> \<and>
   Plot_Crossings_As_Minutes_Before
     \<lparr>axes = [], crossings = [\<lparr>row_start = 50, row_end = 250, row_start_x_msm = 1,
        row_start_y_msm = 2, row_start_z_msm = 3, row_type = ''bow_shock''\<rparr>]\<rparr>
     100 200 150 True (9 / 10) ''orange'' =
     Inr \<lparr>axes = [], crossings = [\<lparr>row_start = 50, row_end = 250, row_start_x_msm = 1,
        row_start_y_msm = 2, row_start_z_msm = 3, row_type = ''bow_shock''\<rparr>]\<rparr>"
  using spanning_interval_not_drawn [where
    r = "\<lparr>row_start = 50, row_end = 250, row_start_x_msm = 1, row_start_y_msm = 2,
       row_start_z_msm = 3, row_type = ''bow_shock''\<rparr>" and A = 100 and B = 200 and
    w = "\<lparr>axes = [], crossings = []\<rparr>" and earlier = "[]" and later = "[]" and
    label = True and color = "''orange''" and T = 150 and height = "9 / 10"]
  by simp

section \<open>Minutes before apoapsis\<close>

text \<open>
  C5. In \<open>Plot_Crossings_As_Minutes_Before\<close> every line that is added stands at the
  difference between the apoapsis time and the start (or the end) of its row, in minutes.
  A row that starts ten minutes before the apoapsis and ends five minutes after it gets its
  lines at \<open>10\<close> and at \<open>-5\<close>.
\<close>

theorem minutes_before_apoapsis:
  "(\<exists>w'. Plot_Crossings_As_Minutes_Before w A B T label height color = Inr w' \<and>
      map line_x (filter is_Axvline (axes w')) =
        map line_x (filter is_Axvline (axes w)) @
        concat (map (\<lambda>r. [Number ((T - row_start r) / 60), Number ((T - row_end r) / 60)])
          (filter (\<lambda>r. (A < row_start r \<and> row_start r < B) \<or>
                       (A < row_end r \<and> row_end r < B)) (crossings w)))) \<and>
   Plot_Crossings_As_Minutes_Before
     \<lparr>axes = [], crossings = [\<lparr>row_start = T - 10 * 60, row_end = T + 5 * 60,
        row_start_x_msm = x, row_start_y_msm = y, row_start_z_msm = z, row_type = ty\<rparr>]\<rparr>
     (T - 3600) (T + 3600) T False height color =
     Inr \<lparr>axes = [Axvline (Number 10) color ''dashed'', Axvline (Number (- 5)) color ''dashed''],
          crossings = [\<lparr>row_start = T - 10 * 60, row_end = T + 5 * 60,
        row_start_x_msm = x, row_start_y_msm = y, row_start_z_msm = z, row_type = ty\<rparr>]\<rparr>"
  by (simp add: Plot_Crossings_As_Minutes_Before_added filter_concat map_concat comp_def)

section \<open>The label\<close>

lemma label_text_example:
  "replace CHR ''_'' CHR '' '' (upper ''magnetopause_crossing'') = ''MAGNETOPAUSE CROSSING''"
  by code_simp

text \<open>
  C6. With \<open>label\<close> true, both functions place the label of a drawn row, in axes-relative
  coordinates (\<open>transform = ax.transAxes\<close>), at the horizontal position
  \<open>(midpoint - A) / (B - A)\<close>, where \<open>midpoint = start + (end - start) / 2\<close> and \<open>(A, B)\<close> is
  the window in absolute time; the two functions give the same positions for the same table
  and window. With a window of 100 seconds and a midpoint 25 seconds after its start the
  position is \<open>1/4\<close> in both.
\<close>

theorem label_position:
  "(\<exists>w' w''.
      Plot_Crossing_Intervals w A B True color = Inr w' \<and>
      Plot_Crossings_As_Minutes_Before w A B T True height color = Inr w'' \<and>
      map text_x (filter is_Text (axes w')) =
        map text_x (filter is_Text (axes w)) @
        map (\<lambda>r. ((row_start r + (row_end r - row_start r) / 2) - A) / (B - A))
          (filter (\<lambda>r. (A < row_start r \<and> row_start r < B) \<or>
                       (A < row_end r \<and> row_end r < B)) (crossings w)) \<and>
      map text_x (filter is_Text (axes w'')) = map text_x (filter is_Text (axes w')) \<and>
      map text_transform (filter is_Text (axes w')) =
        map text_transform (filter is_Text (axes w)) @
        map (\<lambda>r. transAxes)
          (filter (\<lambda>r. (A < row_start r \<and> row_start r < B) \<or>
                       (A < row_end r \<and> row_end r < B)) (crossings w)) \<and>
      map text_transform (filter is_Text (axes w'')) =
        map text_transform (filter is_Text (axes w'))) \<and>
   map_sum id (\<lambda>w'. map text_x (filter is_Text (axes w')))
     (Plot_Crossing_Intervals
        \<lparr>axes = [], crossings = [\<lparr>row_start = A + 20, row_end = A + 30,
           row_start_x_msm = x, row_start_y_msm = y, row_start_z_msm = z, row_type = ty\<rparr>]\<rparr>
        A (A + 100) True color) = Inr [1 / 4] \<and>
   map_sum id (\<lambda>w'. map text_x (filter is_Text (axes w')))
     (Plot_Crossings_As_Minutes_Before
        \<lparr>axes = [], crossings = [\<lparr>row_start = A + 20, row_end = A + 30,
           row_start_x_msm = x, row_start_y_msm = y, row_start_z_msm = z, row_type = ty\<rparr>]\<rparr>
        A (A + 100) T True height color) = Inr [1 / 4]"
  by (simp add: Plot_Crossing_Intervals_added Plot_Crossings_As_Minutes_Before_added
        filter_concat map_concat comp_def)

text \<open>
  C7. With \<open>label\<close> true, the text of the label of a drawn row is the row's type in upper
  case with every underscore replaced by a space, in both functions; the type
  \<open>magnetopause_crossing\<close> is drawn as \<open>MAGNETOPAUSE CROSSING\<close>.
\<close>

theorem label_text:
  "(\<exists>w' w''.
      Plot_Crossing_Intervals w A B True color = Inr w' \<and>
      Plot_Crossings_As_Minutes_Before w A B T True height color = Inr w'' \<and>
      map text_s (filter is_Text (axes w')) =
        map text_s (filter is_Text (axes w)) @
        map (\<lambda>r. replace CHR ''_'' CHR '' '' (upper (row_type r)))
          (filter (\<lambda>r. (A < row_start r \<and> row_start r < B) \<or>
                       (A < row_end r \<and> row_end r < B)) (crossings w)) \<and>
      map text_s (filter is_Text (axes w'')) = map text_s (filter is_Text (axes w'))) \<and>
   map_sum id (\<lambda>w'. map text_s (filter is_Text (axes w')))
     (Plot_Crossing_Intervals
        \<lparr>axes = [], crossings = [\<lparr>row_start = A + 1, row_end = A + 2, row_start_x_msm = x,
           row_start_y_msm = y, row_start_z_msm = z, row_type = ''magnetopause_crossing''\<rparr>]\<rparr>
        A (A + 3) True color) = Inr [''MAGNETOPAUSE CROSSING''] \<and>
   map_sum id (\<lambda>w'. map text_s (filter is_Text (axes w')))
     (Plot_Crossings_As_Minutes_Before
        \<lparr>axes = [], crossings = [\<lparr>row_start = A + 1, row_end = A + 2, row_start_x_msm = x,
           row_start_y_msm = y, row_start_z_msm = z, row_type = ''magnetopause_crossing''\<rparr>]\<rparr>
        A (A + 3) T True height color) = Inr [''MAGNETOPAUSE CROSSING'']"
  by (simp add: Plot_Crossing_Intervals_added Plot_Crossings_As_Minutes_Before_added
        filter_concat map_concat comp_def label_text_example)

section \<open>The table is only read\<close>

text \<open>
  C9. Neither plotting function changes the crossings table: every call returns normally,
  with the table it was given, and the world after the call differs from the world before
  it in the axes only.
\<close>

theorem crossings_not_mutated:
  "(\<exists>w'. Plot_Crossing_Intervals w A B label color = Inr w' \<and>
      crossings w' = crossings w \<and> w' = w\<lparr>axes := axes w'\<rparr>) \<and>
   (\<exists>w'. Plot_Crossings_As_Minutes_Before w A B T label height color = Inr w' \<and>
      crossings w' = crossings w \<and> w' = w\<lparr>axes := axes w'\<rparr>)"
  by (simp add: Plot_Crossing_Intervals_added Plot_Crossings_As_Minutes_Before_added)

section \<open>The window of width zero\<close>

text \<open>
  C10. When the two ends of the window are equal, the test of the \<open>if\<close> is false for every
  row, so both functions return normally and leave the axes as they were; the division by
  the width of the window, which would raise \<open>ZeroDivisionError\<close>, is not reached.
\<close>

theorem zero_width_window_draws_nothing:
  "filter (\<lambda>r. (A < row_start r \<and> row_start r < A) \<or> (A < row_end r \<and> row_end r < A))
     (crossings w) = [] \<and>
   truediv (total_seconds (m - A)) (total_seconds (A - A)) = Inl ZeroDivisionError \<and>
   Plot_Crossing_Intervals w A A label color = Inr w \<and>
   Plot_Crossings_As_Minutes_Before w A A T label height color = Inr w"
  by (simp add: Plot_Crossing_Intervals_added Plot_Crossings_As_Minutes_Before_added
        truediv_def total_seconds_def)

text \<open>
  C2, as the specification states it, asks for an error on a window of width zero. The
  functions raise none: on the window \<open>(100, 100)\<close> and a table with one row from \<open>50\<close> to
  \<open>250\<close> both return normally, with the world they were given.
\<close>

theorem zero_width_window_no_error_counterexample:
  "Plot_Crossing_Intervals
     \<lparr>axes = [], crossings = [\<lparr>row_start = 50, row_end = 250, row_start_x_msm = 1,
        row_start_y_msm = 2, row_start_z_msm = 3, row_type = ''bow_shock''\<rparr>]\<rparr>
     100 100 True ''orange'' =
     Inr \<lparr>axes = [], crossings = [\<lparr>row_start = 50, row_end = 250, row_start_x_msm = 1,
        row_start_y_msm = 2, row_start_z_msm = 3, row_type = ''bow_shock''\<rparr>]\<rparr> \<and>
   Plot_Crossings_As_Minutes_Before
     \<lparr>axes = [], crossings = [\<lparr>row_start = 50, row_end = 250, row_start_x_msm = 1,
        row_start_y_msm = 2, row_start_z_msm = 3, row_type = ''bow_shock''\<rparr>]\<rparr>
     100 100 150 True (9 / 10) ''orange'' =
     Inr \<lparr>axes = [], crossings = [\<lparr>row_start = 50, row_end = 250, row_start_x_msm = 1,
        row_start_y_msm = 2, row_start_z_msm = 3, row_type = ''bow_shock''\<rparr>]\<rparr>"
  by (simp add: Plot_Crossing_Intervals_def Plot_Crossings_As_Minutes_Before_def)

text \<open>
  C2, amended. A call of either plotting function with the two ends of the window equal
  raises no error and computes no label position: it returns normally and adds no text to
  the axes.
\<close>

theorem zero_width_window_returns_normally:
  "(\<exists>w'. Plot_Crossing_Intervals w A A label color = Inr w' \<and>
      filter is_Text (axes w') = filter is_Text (axes w)) \<and>
   (\<exists>w'. Plot_Crossings_As_Minutes_Before w A A T label height color = Inr w' \<and>
      filter is_Text (axes w') = filter is_Text (axes w))"
  by (simp add: Plot_Crossing_Intervals_added Plot_Crossings_As_Minutes_Before_added)

section \<open>Loading\<close>

text \<open>
  C3. When the file opens, the pickle decodes to a table and the six columns \<open>start\<close>,
  \<open>end\<close>, \<open>start_x_msm\<close>, \<open>start_y_msm\<close>, \<open>start_z_msm\<close> and \<open>Type\<close> are there with \<open>n\<close> rows
  each, \<open>Load_Crossings\<close> returns a table of exactly the six columns \<open>start\<close>, \<open>end\<close>,
  \<open>start_x_msm\<close>, \<open>start_y_msm\<close>, \<open>start_z_msm\<close> and \<open>type\<close>, each the source column as it
  was (\<open>type\<close> being the source's \<open>Type\<close>) and so of \<open>n\<close> rows; the columns \<open>end_x_msm\<close>,
  \<open>end_y_msm\<close> and \<open>end_z_msm\<close> of the source are not in the result.
\<close>

theorem Load_Crossings_projection:
  assumes "open_rb path = Inr content" and "pickle_load content = Inr data"
    and "data ''start'' = Some c_start" and "data ''end'' = Some c_end"
    and "data ''start_x_msm'' = Some c_x" and "data ''start_y_msm'' = Some c_y"
    and "data ''start_z_msm'' = Some c_z" and "data ''Type'' = Some c_type"
    and "length c_start = n" and "length c_end = n" and "length c_x = n"
    and "length c_y = n" and "length c_z = n" and "length c_type = n"
  shows "\<exists>t. Load_Crossings open_rb pickle_load path = Inr t \<and>
           t = [(''start'', c_start), (''end'', c_end), (''start_x_msm'', c_x),
                (''start_y_msm'', c_y), (''start_z_msm'', c_z), (''type'', c_type)] \<and>
           map fst t = [''start'', ''end'', ''start_x_msm'', ''start_y_msm'', ''start_z_msm'',
                        ''type''] \<and>
           map (length \<circ> snd) t = replicate 6 n \<and>
           map_of t ''end_x_msm'' = None \<and> map_of t ''end_y_msm'' = None \<and>
           map_of t ''end_z_msm'' = None \<and> map_of t ''Type'' = None"
  using assms
  by (simp add: Load_Crossings_def and_then_def getitem_def pd_DataFrame_def numeral_eq_Suc)

theorem Load_Crossings_projection_witness:
  "Load_Crossings (\<lambda>p. if p = ''crossings.pkl'' then Inr ''bytes'' else Inl FileNotFoundError)
     (\<lambda>b. Inr [''start'' \<mapsto> [1, 5 :: int], ''end'' \<mapsto> [2, 6], ''start_x_msm'' \<mapsto> [10, 11],
         ''end_x_msm'' \<mapsto> [20, 21], ''start_y_msm'' \<mapsto> [30, 31], ''end_y_msm'' \<mapsto> [40, 41],
         ''start_z_msm'' \<mapsto> [50, 51], ''end_z_msm'' \<mapsto> [60, 61], ''Type'' \<mapsto> [7, 8]])
     ''crossings.pkl'' =
   Inr [(''start'', [1, 5]), (''end'', [2, 6]), (''start_x_msm'', [10, 11]),
        (''start_y_msm'', [30, 31]), (''start_z_msm'', [50, 51]), (''type'', [7, 8])]"
  using Load_Crossings_projection [where
    open_rb = "\<lambda>p. if p = ''crossings.pkl'' then Inr ''bytes'' else Inl FileNotFoundError" and
    path = "''crossings.pkl''" and content = "''bytes''" and
    pickle_load = "\<lambda>b. Inr [''start'' \<mapsto> [1, 5 :: int], ''end'' \<mapsto> [2, 6],
         ''start_x_msm'' \<mapsto> [10, 11],
         ''end_x_msm'' \<mapsto> [20, 21], ''start_y_msm'' \<mapsto> [30, 31], ''end_y_msm'' \<mapsto> [40, 41],
         ''start_z_msm'' \<mapsto> [50, 51], ''end_z_msm'' \<mapsto> [60, 61], ''Type'' \<mapsto> [7, 8]]" and
    data = "[''start'' \<mapsto> [1, 5 :: int], ''end'' \<mapsto> [2, 6],
         ''start_x_msm'' \<mapsto> [10, 11],
         ''end_x_msm'' \<mapsto> [20, 21], ''start_y_msm'' \<mapsto> [30, 31], ''end_y_msm'' \<mapsto> [40, 41],
         ''start_z_msm'' \<mapsto> [50, 51], ''end_z_msm'' \<mapsto> [60, 61], ''Type'' \<mapsto> [7, 8]]" and
    c_start = "[1, 5]" and c_end = "[2, 6]" and c_x = "[10, 11]" and c_y = "[30, 31]" and
    c_z = "[50, 51]" and c_type = "[7, 8]" and n = 2]
  by simp



end
